theory Spec2Isabelle
  imports Complex_Main
begin

section \<open>Numbers\<close>

text \<open>
  A JavaScript number is modelled as either \<open>NaN\<close> or an exact rational \<open>Num x\<close>.
  Arithmetic on \<open>Num\<close> values is exact: the rounding of IEEE doubles and overflow to
  an infinity are not part of the model. Every division of the source divides by the
  constant 50 or stands behind a \<^verbatim>\<open>!== 0\<close> test of its divisor, so the quotient by
  zero (an infinity in JavaScript) is never asked for; \<open>div_num\<close> gives \<open>NaN\<close> there.
\<close>

datatype number = NaN | Num rat

fun add_num :: "number \<Rightarrow> number \<Rightarrow> number" where
  "add_num (Num a) (Num b) = Num (a + b)"
| "add_num _ _ = NaN"

fun sub_num :: "number \<Rightarrow> number \<Rightarrow> number" where
  "sub_num (Num a) (Num b) = Num (a - b)"
| "sub_num _ _ = NaN"





fun lt_num :: "number \<Rightarrow> number \<Rightarrow> bool" where
  "lt_num (Num a) (Num b) = (a < b)"
| "lt_num _ _ = False"


fun isNaN :: "number \<Rightarrow> bool" where
  "isNaN NaN = True"
| "isNaN (Num _) = False"




section \<open>Characters and regular expressions\<close>

text \<open>
  Strings are lists of 8-bit characters, read as the code units U+0000 to U+00FF.
  \<open>isSpace\<close> is the class \<^verbatim>\<open>\s\<close> on that range, \<open>isDigit\<close> is \<^verbatim>\<open>\d\<close>.
\<close>

definition isSpace :: "char \<Rightarrow> bool" where
  "isSpace c = (c \<in> set [CHR 0x09, CHR 0x0A, CHR 0x0B, CHR 0x0C, CHR 0x0D, CHR 0x20, CHR 0xA0])"

definition isDigit :: "char \<Rightarrow> bool" where
  "isDigit c = (c \<in> set ''0123456789'')"

definition isSign :: "char \<Rightarrow> bool" where
  "isSign c = (c = CHR ''+'' \<or> c = CHR ''-'')"

definition isChar :: "char \<Rightarrow> char \<Rightarrow> bool" where
  "isChar a c = (c = a)"

definition toLowerChar :: "char \<Rightarrow> char" where
  "toLowerChar c =
     (let n = (of_char c :: nat)
      in if (65 \<le> n \<and> n \<le> 90) \<or> (192 \<le> n \<and> n \<le> 222 \<and> n \<noteq> 215)
         then char_of (n + 32) else c)"

definition toLowerCase :: "string \<Rightarrow> string" where
  "toLowerCase s = map toLowerChar s"

text \<open>
  The regular expressions of the source are sequences of character classes, each
  taken once or under \<^verbatim>\<open>?\<close>, \<^verbatim>\<open>*\<close> or \<^verbatim>\<open>+\<close>. \<open>rmatch r s\<close> matches \<open>r\<close> at the
  start of \<open>s\<close> the way a backtracking engine does, each quantifier greedy, and
  returns what is left of \<open>s\<close> after the match, or \<open>None\<close>.
\<close>

datatype quant = Once | Opt | Star | Plus

type_synonym regex = "((char \<Rightarrow> bool) \<times> quant) list"

fun rmatch :: "regex \<Rightarrow> string \<Rightarrow> string option" where
  "rmatch [] s = Some s"
| "rmatch ((c, Once) # r) [] = None"
| "rmatch ((c, Once) # r) (x # xs) = (if c x then rmatch r xs else None)"
| "rmatch ((c, Opt) # r) [] = rmatch r []"
| "rmatch ((c, Opt) # r) (x # xs) =
     (if c x
      then (case rmatch r xs of Some t \<Rightarrow> Some t | None \<Rightarrow> rmatch r (x # xs))
      else rmatch r (x # xs))"
| "rmatch ((c, Star) # r) [] = rmatch r []"
| "rmatch ((c, Star) # r) (x # xs) =
     (if c x
      then (case rmatch ((c, Star) # r) xs of Some t \<Rightarrow> Some t | None \<Rightarrow> rmatch r (x # xs))
      else rmatch r (x # xs))"
| "rmatch ((c, Plus) # r) [] = None"
| "rmatch ((c, Plus) # r) (x # xs) = (if c x then rmatch ((c, Star) # r) xs else None)"

text \<open>
  \<open>rfind r s\<close> is the leftmost match of \<open>r\<close> in \<open>s\<close>: the text before it, the match
  and the text after it.
\<close>

fun rfind :: "regex \<Rightarrow> string \<Rightarrow> (string \<times> string \<times> string) option" where
  "rfind r [] =
     (case rmatch r [] of Some t \<Rightarrow> Some ([], [], t) | None \<Rightarrow> None)"
| "rfind r (x # xs) =
     (case rmatch r (x # xs) of
        Some t \<Rightarrow> Some ([], take (length (x # xs) - length t) (x # xs), t)
      | None \<Rightarrow>
          (case rfind r xs of
             Some (b, m, a) \<Rightarrow> Some (x # b, m, a)
           | None \<Rightarrow> None))"

text \<open>
  \<open>rmatchAll r s\<close> is \<^verbatim>\<open>s.match(/r/g)\<close>: the matches from left to right, each search
  starting where the last match ended (one character further after an empty match).
  JavaScript returns \<^verbatim>\<open>null\<close> for the empty list.
\<close>

function rmatchAll :: "regex \<Rightarrow> string \<Rightarrow> string list" where
  "rmatchAll r s =
     (case rmatch r s of
        Some t \<Rightarrow>
          (if length t < length s then take (length s - length t) s # rmatchAll r t
           else [] # (case s of [] \<Rightarrow> [] | x # xs \<Rightarrow> rmatchAll r xs))
      | None \<Rightarrow> (case s of [] \<Rightarrow> [] | x # xs \<Rightarrow> rmatchAll r xs))"
  by pat_completeness auto
termination
  by (relation "measure (\<lambda>(r, s). length s)") auto

section \<open>parseFloat\<close>

text \<open>
  \<^verbatim>\<open>parseFloat\<close> on the strings the parser hands it: leading white space, an optional
  sign, digits, and an optional fraction; the longest such prefix is read and
  the rest ignored; with no digit at all the result is NaN. Exponents and the
  literal \<^verbatim>\<open>Infinity\<close> are left out: the terms the parser cuts out of an equation
  hold only a sign, digits, a dot and \<^verbatim>\<open>p\<close>.
\<close>

definition digitVal :: "char \<Rightarrow> nat" where
  "digitVal c = of_char c - 48"

definition digitsVal :: "string \<Rightarrow> nat" where
  "digitsVal ds = foldl (\<lambda>a c. 10 * a + digitVal c) 0 ds"

definition parseFloat :: "string \<Rightarrow> number" where
  "parseFloat str =
     (let s0 = dropWhile isSpace str;
          neg = (case s0 of [] \<Rightarrow> False | c # _ \<Rightarrow> c = CHR ''-'');
          s1 = (case s0 of [] \<Rightarrow> [] | c # cs \<Rightarrow> if isSign c then cs else s0);
          ip = takeWhile isDigit s1;
          fp = (case dropWhile isDigit s1 of
                  [] \<Rightarrow> []
                | c # cs \<Rightarrow> if c = CHR ''.'' then takeWhile isDigit cs else []);
          v = of_nat (digitsVal ip) + of_nat (digitsVal fp) / 10 ^ length fp
      in if ip = [] \<and> fp = [] then NaN
         else Num (if neg then - v else v))"

section \<open>parseEquation\<close>

text \<open>
  The three messages of \<^verbatim>\<open>parseEquation\<close>: no term matched, a NaN slope or
  intercept, and the \<^verbatim>\<open>catch\<close> block (no operation in the \<^verbatim>\<open>try\<close> block throws on a
  string, so \<open>ParseException\<close> is never returned).
\<close>

datatype parse_error = InvalidFormat | NotANumber | ParseException

text \<open>\<^verbatim>\<open>/^p/\<close>, \<^verbatim>\<open>/([+-])p/\<close>, \<^verbatim>\<open>/^-p/\<close> and \<^verbatim>\<open>/([+-]?\d*\.?\d+p?)/g\<close>.\<close>

definition re_p :: regex where
  "re_p = [(isChar CHR ''p'', Once)]"

definition re_sign_p :: regex where
  "re_sign_p = [(isSign, Once), (isChar CHR ''p'', Once)]"

definition re_minus_p :: regex where
  "re_minus_p = [(isChar CHR ''-'', Once), (isChar CHR ''p'', Once)]"

definition re_term :: regex where
  "re_term = [(isSign, Opt), (isDigit, Star), (isChar CHR ''.'', Opt), (isDigit, Plus),
              (isChar CHR ''p'', Opt)]"

text \<open>\<^verbatim>\<open>eq.replace(/^p/, '1p')\<close> and \<^verbatim>\<open>eq.replace(/^-p/, '-1p')\<close>: a match at the start only.\<close>

definition replaceStart :: "regex \<Rightarrow> string \<Rightarrow> string \<Rightarrow> string" where
  "replaceStart r new s = (case rmatch r s of Some t \<Rightarrow> new @ t | None \<Rightarrow> s)"

text \<open>
  \<^verbatim>\<open>eq.replace(/([+-])p/, '$11p')\<close>: the regular expression has no \<^verbatim>\<open>g\<close> flag, so only
  the leftmost match is replaced. With one capture group, \<^verbatim>\<open>$11\<close> is the first
  capture followed by the digit 1; the capture is the first character of the match.
\<close>

definition replaceSignP :: "string \<Rightarrow> string" where
  "replaceSignP s =
     (case rfind re_sign_p s of
        Some (b, m, a) \<Rightarrow> b @ take 1 m @ ''1p'' @ a
      | None \<Rightarrow> s)"

text \<open>The body of the loop over the terms; the state is (slope, intercept).\<close>

definition termStep :: "string \<Rightarrow> number \<times> number \<Rightarrow> number \<times> number" where
  "termStep term acc =
     (case acc of (slope, intercept) \<Rightarrow>
        if CHR ''p'' \<in> set term then
          (let coefStr = remove1 CHR ''p'' term
           in if coefStr = ''+'' \<or> coefStr = '''' then (add_num slope (Num 1), intercept)
              else if coefStr = ''-'' then (sub_num slope (Num 1), intercept)
              else (add_num slope (parseFloat coefStr), intercept))
        else (slope, add_num intercept (parseFloat term)))"

record parsed =
  slope :: number
  intercept :: number
  error :: "parse_error option"

definition parseEquation :: "string \<Rightarrow> parsed" where
  "parseEquation eq0 =
     (let eq1 = toLowerCase (filter (\<lambda>c. \<not> isSpace c) eq0);
          eq2 = replaceSignP (replaceStart re_p ''1p'' eq1);
          eq3 = replaceStart re_minus_p ''-1p'' eq2;
          terms = rmatchAll re_term eq3
      in if terms = [] then \<lparr>slope = Num 0, intercept = Num 0, error = Some InvalidFormat\<rparr>
         else
           (let acc = fold termStep terms (Num 0, Num 0)
            in \<lparr>slope = fst acc, intercept = snd acc,
                error = (if isNaN (fst acc) \<or> isNaN (snd acc) then Some NotANumber else None)\<rparr>))"

section \<open>toFixed\<close>




section \<open>calculateEquilibrium\<close>

























section \<open>The shape of a displayed number\<close>



section \<open>The fields of the result\<close>








section \<open>The two equilibria\<close>






lemma parse_demand_example:
  "parseEquation ''-P + 16'' = \<lparr>slope = Num (- 1), intercept = Num 16, error = None\<rparr>"
  by code_simp

lemma parse_supply_example:
  "parseEquation ''P + 4'' = \<lparr>slope = Num 1, intercept = Num 4, error = None\<rparr>"
  by code_simp
















section \<open>The parser on given equations\<close>

lemma parse_2P_10:
  "parseEquation ''2P+10'' = \<lparr>slope = Num 2, intercept = Num 10, error = None\<rparr>"
  by code_simp

lemma parse_50_3P:
  "parseEquation ''50-3P'' = \<lparr>slope = Num (- 3), intercept = Num 50, error = None\<rparr>"
  by code_simp

lemma parse_abc:
  "parseEquation ''abc'' = \<lparr>slope = Num 0, intercept = Num 0, error = Some InvalidFormat\<rparr>"
  by code_simp


lemma parse_P_P_P:
  "parseEquation ''P+P+P'' = \<lparr>slope = Num 2, intercept = Num 0, error = None\<rparr>"
  by code_simp

lemma terms_P_P_P:
  "replaceSignP (replaceStart re_p ''1p'' (toLowerCase (filter (\<lambda>c. \<not> isSpace c) ''P+P+P'')))
     = ''1p+1p+p''
   \<and> rmatchAll re_term ''1p+1p+p'' = [''1p'', ''+1p'']"
  by code_simp

text \<open>
  Claim C5. The parser on the five inputs of the specification: \<^verbatim>\<open>-P + 16\<close>,
  \<^verbatim>\<open>P + 4\<close>, \<^verbatim>\<open>2P+10\<close>, \<^verbatim>\<open>50-3P\<close> and \<^verbatim>\<open>abc\<close>.
\<close>

theorem parse_examples:
  "parseEquation ''-P + 16'' = \<lparr>slope = Num (- 1), intercept = Num 16, error = None\<rparr>
   \<and> parseEquation ''P + 4'' = \<lparr>slope = Num 1, intercept = Num 4, error = None\<rparr>
   \<and> parseEquation ''2P+10'' = \<lparr>slope = Num 2, intercept = Num 10, error = None\<rparr>
   \<and> parseEquation ''50-3P'' = \<lparr>slope = Num (- 3), intercept = Num 50, error = None\<rparr>
   \<and> parseEquation ''abc'' = \<lparr>slope = Num 0, intercept = Num 0, error = Some InvalidFormat\<rparr>"
  using parse_demand_example parse_supply_example parse_2P_10 parse_50_3P parse_abc
  by simp

text \<open>
  Claim C6, at the input of the claim. In \<^verbatim>\<open>P+P+P\<close> only the first \<^verbatim>\<open>P\<close> (by \<^verbatim>\<open>/^p/\<close>) and
  the first \<^verbatim>\<open>+P\<close> (by \<^verbatim>\<open>/([+-])p/\<close>, which has no \<^verbatim>\<open>g\<close> flag) receive the coefficient
  1; the third term stays \<^verbatim>\<open>+p\<close>, which the term pattern does not match because it asks
  for a digit. The slope is 2, not 3, and no error is set.
\<close>

theorem parse_bare_terms:
  "rmatchAll re_term
     (replaceSignP (replaceStart re_p ''1p'' (toLowerCase (filter (\<lambda>c. \<not> isSpace c) ''P+P+P''))))
     = [''1p'', ''+1p'']
   \<and> parseEquation ''P+P+P'' = \<lparr>slope = Num 2, intercept = Num 0, error = None\<rparr>"
  using terms_P_P_P parse_P_P_P by simp

section \<open>Which parse error is reported\<close>








section \<open>The quantity axis and the graph samples\<close>





lemma lt_num_zero: "lt_num a (Num 0) = (\<exists>x. a = Num x \<and> x < 0)"
  by (cases a) simp_all
























section \<open>The table\<close>





























end
